theory Spec2Isabelle
  imports Complex_Main
begin

section \<open>The training orchestrator of train.py\<close>

text \<open>
  The script train.py drives epochs and iterations of a training run, on one worker or on
  many. The model, the data loaders, the tokenizer, the optimizer and the telemetry sink
  are collaborators: the script calls them, and the embedding below records each call as an
  event and takes what the call returns as an input.

  A finite Python \<open>float\<close> is embedded as the \<open>real\<close> it denotes. The
  comparisons of the script are exact under this embedding: the order of finite floats is
  the order of the reals they denote. Float arithmetic is not: where the script adds,
  multiplies, divides or takes a cosine, the embedding computes the exact real result and
  the script its rounding to a double. Python's \<open>int\<close> is \<open>int\<close>; Python's
  \<open>%\<close> and \<open>//\<close> on ints round to minus infinity, as \<open>mod\<close> and
  \<open>div\<close> on \<open>int\<close> do, and raise ZeroDivisionError where HOL returns a
  value.
\<close>

subsection \<open>Errors\<close>

datatype error =
    KeyError string
  | ZeroDivisionError
  | AssertionError
  | NameError string
  | FileNotFoundError

subsection \<open>Configuration (lines 40--90)\<close>

record config =
  eval_interval :: int
  log_interval :: int
  sample_interval :: int
  eval_only :: bool
  always_save_checkpoint :: bool
  wandb_log :: bool
  gradient_accumulation_steps :: int
  learning_rate :: real
  max_iters :: int
  grad_clip :: real
  decay_lr :: bool
  warmup_iters :: int
  lr_decay_iters :: int
  min_lr :: real
  num_epochs :: int

text \<open>The values the script assigns before any override.\<close>

definition default_config :: config where
  "default_config =
     \<lparr> eval_interval = 600, log_interval = 50, sample_interval = 100,
       eval_only = False, always_save_checkpoint = False, wandb_log = True,
       gradient_accumulation_steps = 8, learning_rate = 6 / 10000,
       max_iters = 120000, grad_clip = 1, decay_lr = True,
       warmup_iters = 2000, lr_decay_iters = 45000, min_lr = 6 / 100000,
       num_epochs = 100 \<rparr>"

subsection \<open>Run context (lines 100--123)\<close>

text \<open>
  The process environment: the variables RANK, LOCAL\_RANK and WORLD\_SIZE, each absent or
  holding an integer.
\<close>

record os_environ =
  RANK :: "int option"
  LOCAL_RANK :: "int option"
  WORLD_SIZE :: "int option"

record run_context =
  ddp :: bool
  ddp_rank :: int
  ddp_local_rank :: int
  ddp_world_size :: int
  master_process :: bool
  seed_offset :: int

text \<open>
  \<open>os.environ.get('RANK', -1)\<close>: an absent variable reads as \<open>-1\<close>, and the run is
  distributed when the value is not \<open>-1\<close>.
\<close>

definition is_ddp :: "os_environ \<Rightarrow> bool" where
  "is_ddp env = ((case RANK env of None \<Rightarrow> - 1 | Some r \<Rightarrow> r) \<noteq> - 1)"

text \<open>
  \<open>os.environ['LOCAL_RANK']\<close> and \<open>os.environ['WORLD_SIZE']\<close> raise KeyError when
  absent. Joining the process group and binding the device are calls to the library and are
  taken to return. The assertion and the floor division follow; the result is the run
  context and the per-process \<open>gradient_accumulation_steps\<close>.
\<close>

definition init_run_context :: "os_environ \<Rightarrow> int \<Rightarrow> error + (run_context \<times> int)" where
  "init_run_context env gas =
     (if is_ddp env then
        (case RANK env of
           None \<Rightarrow> Inl (KeyError ''RANK'')
         | Some r \<Rightarrow>
           (case LOCAL_RANK env of
              None \<Rightarrow> Inl (KeyError ''LOCAL_RANK'')
            | Some l \<Rightarrow>
              (case WORLD_SIZE env of
                 None \<Rightarrow> Inl (KeyError ''WORLD_SIZE'')
               | Some w \<Rightarrow>
                   if w = 0 then Inl ZeroDivisionError
                   else if gas mod w \<noteq> 0 then Inl AssertionError
                   else Inr (\<lparr> ddp = True, ddp_rank = r, ddp_local_rank = l,
                               ddp_world_size = w, master_process = (r = 0),
                               seed_offset = r \<rparr>, gas div w))))
      else Inr (\<lparr> ddp = False, ddp_rank = 0, ddp_local_rank = 0, ddp_world_size = 1,
                  master_process = True, seed_offset = 0 \<rparr>, gas))"

subsection \<open>Learning rate schedule (lines 262--274)\<close>

text \<open>
  The branches, the two divisions that can raise ZeroDivisionError and the assertion are
  those of the source. The rate returned is the exact real value of the expression that the
  source evaluates in doubles, with the cosine of the C library: the two agree up to
  rounding only, so the development states nothing about the value of a rate beyond
  iteration 0 of the warmup, where the product with 0 and the quotient of 0 are exact. What
  is used below is that the call returns and that it does not read \<open>max_iters\<close>. The
  conversion of an int beyond the range of a double, which raises OverflowError in Python,
  has no counterpart here.
\<close>

definition get_lr :: "config \<Rightarrow> int \<Rightarrow> error + real" where
  "get_lr c it =
     (if it < warmup_iters c then
        (if warmup_iters c = 0 then Inl ZeroDivisionError
         else Inr (learning_rate c * real_of_int it / real_of_int (warmup_iters c)))
      else if it > lr_decay_iters c then Inr (min_lr c)
      else if lr_decay_iters c - warmup_iters c = 0 then Inl ZeroDivisionError
      else
        (let decay_ratio =
               real_of_int (it - warmup_iters c) / real_of_int (lr_decay_iters c - warmup_iters c)
         in if \<not> (0 \<le> decay_ratio \<and> decay_ratio \<le> 1) then Inl AssertionError
            else
              (let coeff = 0.5 * (1.0 + cos (pi * decay_ratio))
               in Inr (min_lr c + coeff * (learning_rate c - min_lr c)))))"

text \<open>Line 309: \<open>lr = get_lr(iter_num) if decay_lr else learning_rate\<close>.\<close>

definition lr_for :: "config \<Rightarrow> int \<Rightarrow> error + real" where
  "lr_for c it = (if decay_lr c then get_lr c it else Inr (learning_rate c))"

subsection \<open>Training state and checkpoints (lines 83--85, 165--187, 344--354)\<close>

record training_state =
  iter_num :: int
  best_val_loss :: real
  best_val_bleu :: real

definition initial_state :: training_state where
  "initial_state = \<lparr> iter_num = 0, best_val_loss = 10 ^ 9, best_val_bleu = 0 \<rparr>"

text \<open>
  A checkpoint is a Python dict, here the list of its items in the order of the dict
  literal. A value is a float, an int, or a payload of a collaborator (a state dict, the
  model arguments, the configuration dict), which the script stores and loads but never
  inspects.
\<close>

datatype 'a pyval = PyFloat real | PyInt int | Payload 'a

type_synonym 'a checkpoint = "(string \<times> 'a pyval) list"

text \<open>
  The payloads at the time of a save: \<open>model.state_dict()\<close>,
  \<open>optimizer.state_dict()\<close>, \<open>model_args\<close> and \<open>config\<close>.
\<close>

record 'a payloads =
  model_state_dict :: 'a
  optimizer_state_dict :: 'a
  model_args :: 'a
  config_dict :: 'a

text \<open>The dict literal of lines 345--352.\<close>

definition make_checkpoint :: "'a payloads \<Rightarrow> training_state \<Rightarrow> 'a checkpoint" where
  "make_checkpoint p st =
     [ (''model'', Payload (model_state_dict p)),
       (''optimizer'', Payload (optimizer_state_dict p)),
       (''model_args'', Payload (model_args p)),
       (''best_val_loss'', PyFloat (best_val_loss st)),
       (''config'', Payload (config_dict p)),
       (''best_val_bleu'', PyFloat (best_val_bleu st)) ]"

text \<open>\<open>checkpoint[k]\<close>: the value at the key, or KeyError.\<close>

definition getitem :: "'a checkpoint \<Rightarrow> string \<Rightarrow> error + 'a pyval" where
  "getitem ck k = (case map_of ck k of None \<Rightarrow> Inl (KeyError k) | Some v \<Rightarrow> Inr v)"

text \<open>
  The calls of lines 182--187, made in a distributed run only. \<open>torch.tensor\<close>
  turns a Python value into a tensor, a float into one of single precision;
  \<open>dist.broadcast\<close> leaves in the tensor what rank 0 holds; \<open>item\<close> reads the
  value back. A tensor is represented by the value \<open>item\<close> reads from it, so that
  \<open>as_tensor\<close> on a float returns its rounding to single precision. What the calls
  return is an input of the embedding, and each may raise.
\<close>

record 'a tensor_calls =
  as_tensor :: "'a pyval \<Rightarrow> error + 'a pyval"
  broadcast_iter_num :: "'a pyval \<Rightarrow> error + 'a pyval"
  broadcast_best_val_loss :: "'a pyval \<Rightarrow> error + 'a pyval"

text \<open>
  Lines 182--187: both values are made tensors, both are broadcast, both are read back.
\<close>

definition broadcast_state ::
  "run_context \<Rightarrow> 'a tensor_calls \<Rightarrow> 'a pyval \<Rightarrow> 'a pyval \<Rightarrow> error + ('a pyval \<times> 'a pyval)" where
  "broadcast_state x tc i l =
     (if ddp x then
        (case as_tensor tc i of
           Inl e \<Rightarrow> Inl e
         | Inr t_iter \<Rightarrow>
           (case as_tensor tc l of
              Inl e \<Rightarrow> Inl e
            | Inr t_loss \<Rightarrow>
              (case broadcast_iter_num tc t_iter of
                 Inl e \<Rightarrow> Inl e
               | Inr t_iter2 \<Rightarrow>
                 (case broadcast_best_val_loss tc t_loss of
                    Inl e \<Rightarrow> Inl e
                  | Inr t_loss2 \<Rightarrow> Inr (t_iter2, t_loss2)))))
      else Inr (i, l))"

text \<open>
  The resume branch, lines 165--187 and 203--204. The file at the checkpoint path is absent
  (\<open>None\<close>) or holds a checkpoint. The keys are read in the order of the script:
  \<open>'model'\<close>, \<open>'iter_num'\<close>, \<open>'best_val_loss'\<close>, \<open>'best_val_bleu'\<close>,
  then the broadcast of \<open>iter_num\<close> and \<open>best_val_loss\<close> in a distributed run,
  and \<open>'optimizer'\<close> once the optimizer is built. The result holds the two state dicts
  handed to \<open>load_state_dict\<close> as read, and the three values \<open>iter_num\<close>,
  \<open>best_val_loss\<close> and \<open>best_val_bleu\<close> as the branch leaves them: the first
  two as the broadcast returned them in a distributed run, \<open>best_val_bleu\<close> as read.
\<close>

record 'a resumed =
  loaded_model :: "'a pyval"
  loaded_iter_num :: "'a pyval"
  loaded_best_val_loss :: "'a pyval"
  loaded_best_val_bleu :: "'a pyval"
  loaded_optimizer :: "'a pyval"

definition resume ::
  "run_context \<Rightarrow> 'a tensor_calls \<Rightarrow> 'a checkpoint option \<Rightarrow> error + 'a resumed" where
  "resume x tc file =
     (case file of
        None \<Rightarrow> Inl FileNotFoundError
      | Some ck \<Rightarrow>
        (case getitem ck ''model'' of
           Inl e \<Rightarrow> Inl e
         | Inr m \<Rightarrow>
           (case getitem ck ''iter_num'' of
              Inl e \<Rightarrow> Inl e
            | Inr i \<Rightarrow>
              (case getitem ck ''best_val_loss'' of
                 Inl e \<Rightarrow> Inl e
               | Inr l \<Rightarrow>
                 (case getitem ck ''best_val_bleu'' of
                    Inl e \<Rightarrow> Inl e
                  | Inr b \<Rightarrow>
                    (case broadcast_state x tc i l of
                       Inl e \<Rightarrow> Inl e
                     | Inr (i', l') \<Rightarrow>
                       (case getitem ck ''optimizer'' of
                          Inl e \<Rightarrow> Inl e
                        | Inr opt \<Rightarrow>
                            Inr \<lparr> loaded_model = m, loaded_iter_num = i',
                                  loaded_best_val_loss = l', loaded_best_val_bleu = b,
                                  loaded_optimizer = opt \<rparr>)))))))"

subsection \<open>Events\<close>

text \<open>
  What the script does to its collaborators and to the outside, in the order it does it.
  A run is the list of its events.
\<close>

datatype ('a, 'b) event =
    SetEpoch int
  | LogEpochStart int
  | SetLr real
  | Evaluate int
  | PrintVal int real real
  | WandbVal int real real real
  | SaveCheckpoint "'a checkpoint"
  | SetGradSync bool
  | Forward 'b
  | AllReduceAvg real real
  | WandbTrainLoss int real
  | ScaledBackward real
  | Unscale
  | ClipGradNorm
  | ScalerStep
  | ScalerUpdate
  | ZeroGrad
  | PrintLoss int real real
  | LogSample int
  | Barrier
  | MaxItersCheck int
  | LogStop

text \<open>Projections of a run, one per kind of event.\<close>

fun saved_checkpoints :: "('a, 'b) event list \<Rightarrow> 'a checkpoint list" where
  "saved_checkpoints [] = []"
| "saved_checkpoints (SaveCheckpoint ck # es) = ck # saved_checkpoints es"
| "saved_checkpoints (e # es) = saved_checkpoints es"

fun evaluations :: "('a, 'b) event list \<Rightarrow> int list" where
  "evaluations [] = []"
| "evaluations (Evaluate i # es) = i # evaluations es"
| "evaluations (e # es) = evaluations es"

fun forward_batches :: "('a, 'b) event list \<Rightarrow> 'b list" where
  "forward_batches [] = []"
| "forward_batches (Forward b # es) = b # forward_batches es"
| "forward_batches (e # es) = forward_batches es"

fun backward_losses :: "('a, 'b) event list \<Rightarrow> real list" where
  "backward_losses [] = []"
| "backward_losses (ScaledBackward l # es) = l # backward_losses es"
| "backward_losses (e # es) = backward_losses es"

fun grad_sync_flags :: "('a, 'b) event list \<Rightarrow> bool list" where
  "grad_sync_flags [] = []"
| "grad_sync_flags (SetGradSync f # es) = f # grad_sync_flags es"
| "grad_sync_flags (e # es) = grad_sync_flags es"

fun optimizer_steps :: "('a, 'b) event list \<Rightarrow> nat" where
  "optimizer_steps [] = 0"
| "optimizer_steps (ScalerStep # es) = Suc (optimizer_steps es)"
| "optimizer_steps (e # es) = optimizer_steps es"

fun wandb_train_losses :: "('a, 'b) event list \<Rightarrow> real list" where
  "wandb_train_losses [] = []"
| "wandb_train_losses (WandbTrainLoss i l # es) = l # wandb_train_losses es"
| "wandb_train_losses (e # es) = wandb_train_losses es"

fun printed_losses :: "('a, 'b) event list \<Rightarrow> real list" where
  "printed_losses [] = []"
| "printed_losses (PrintLoss i l r # es) = l # printed_losses es"
| "printed_losses (e # es) = printed_losses es"

fun epoch_starts :: "('a, 'b) event list \<Rightarrow> int list" where
  "epoch_starts [] = []"
| "epoch_starts (LogEpochStart e # es) = e # epoch_starts es"
| "epoch_starts (e # es) = epoch_starts es"

fun max_iters_checks :: "('a, 'b) event list \<Rightarrow> int list" where
  "max_iters_checks [] = []"
| "max_iters_checks (MaxItersCheck i # es) = i # max_iters_checks es"
| "max_iters_checks (e # es) = max_iters_checks es"

text \<open>
  The forward and backward passes of a run, each with the value of
  \<open>model.require_backward_grad_sync\<close> in force when the pass is made: the value of
  the last assignment before it, or the value \<open>f\<close> the attribute had before the
  events when there is none. \<open>sync_after\<close> is the value of the attribute after the
  events.
\<close>

datatype 'b model_pass = ForwardPass 'b | BackwardPass real

fun sync_in_force ::
  "bool option \<Rightarrow> ('a, 'b) event list \<Rightarrow> (bool option \<times> 'b model_pass) list" where
  "sync_in_force f [] = []"
| "sync_in_force f (SetGradSync g # es) = sync_in_force (Some g) es"
| "sync_in_force f (Forward b # es) = (f, ForwardPass b) # sync_in_force f es"
| "sync_in_force f (ScaledBackward l # es) = (f, BackwardPass l) # sync_in_force f es"
| "sync_in_force f (e # es) = sync_in_force f es"

fun sync_after :: "bool option \<Rightarrow> ('a, 'b) event list \<Rightarrow> bool option" where
  "sync_after f [] = f"
| "sync_after f (SetGradSync g # es) = sync_after (Some g) es"
| "sync_after f (e # es) = sync_after f es"

subsection \<open>Collaborators\<close>

text \<open>
  What the collaborators return, as functions of where the run is. \<open>train_loader\<close>
  gives the batches of an epoch in order. \<open>evaluate\<close> gives the validation loss and
  BLEU that \<open>model.evaluate\<close> returns when called in an epoch at an iteration.
  \<open>model_loss\<close> gives \<open>outputs[1]\<close> of the forward pass on this worker at an
  iteration and micro step on a batch. \<open>peer_losses\<close> gives the losses the other
  workers contribute to the \<open>all_reduce\<close> of that micro step. \<open>payloads_at\<close>
  gives the state dicts at an iteration. All these calls are taken to return.
\<close>

record ('a, 'b) collaborators =
  train_loader :: "int \<Rightarrow> 'b list"
  evaluate :: "int \<Rightarrow> int \<Rightarrow> real \<times> real"
  model_loss :: "int \<Rightarrow> int \<Rightarrow> 'b \<Rightarrow> real"
  peer_losses :: "int \<Rightarrow> int \<Rightarrow> real list"
  payloads_at :: "int \<Rightarrow> 'a payloads"

subsection \<open>Evaluation and checkpointing (lines 315--354)\<close>

text \<open>Line 336, the condition of the save.\<close>

definition improved :: "config \<Rightarrow> real \<Rightarrow> real \<Rightarrow> training_state \<Rightarrow> bool" where
  "improved c val_loss val_bleu st =
     (val_loss < best_val_loss st \<or> always_save_checkpoint c \<or> val_bleu > best_val_bleu st)"

text \<open>Lines 337--341, the \<open>if\<close>/\<open>elif\<close> that updates the trackers.\<close>

definition update_best :: "real \<Rightarrow> real \<Rightarrow> training_state \<Rightarrow> training_state" where
  "update_best val_loss val_bleu st =
     (if val_loss < best_val_loss st then st\<lparr>best_val_loss := val_loss\<rparr>
      else if val_bleu > best_val_bleu st then st\<lparr>best_val_bleu := val_bleu\<rparr>
      else st)"

text \<open>
  The block on one worker at one iteration: \<open>vr\<close> is what \<open>evaluate\<close> returns if it
  is called, \<open>p\<close> the payloads if a checkpoint is made, \<open>lr\<close> the learning rate of
  the iteration. \<open>wandb_log\<close> was set to \<open>wandb_log and master_process\<close> at
  lines 277--280.
\<close>

definition eval_and_checkpoint ::
  "run_context \<Rightarrow> config \<Rightarrow> real \<times> real \<Rightarrow> 'a payloads \<Rightarrow> real \<Rightarrow> training_state
     \<Rightarrow> error + (training_state \<times> ('a, 'b) event list)" where
  "eval_and_checkpoint x c vr p lr st =
     (if eval_interval c = 0 then Inl ZeroDivisionError
      else if iter_num st mod eval_interval c = 0 \<and> master_process x then
        (let val_loss = fst vr; val_bleu = snd vr;
             ev = [Evaluate (iter_num st), PrintVal (iter_num st) val_loss val_bleu]
                  @ (if wandb_log c \<and> master_process x
                     then [WandbVal (iter_num st) val_loss lr val_bleu] else [])
         in if improved c val_loss val_bleu st then
              (let st' = update_best val_loss val_bleu st
               in if iter_num st' > 0
                  then Inr (st', ev @ [SaveCheckpoint (make_checkpoint p st')])
                  else Inr (st', ev))
            else Inr (st, ev))
      else Inr (st, []))"

subsection \<open>Forward, backward, update (lines 360--410)\<close>

text \<open>
  \<open>range(K)\<close> for an int \<open>K\<close> is \<open>[0..K - 1]\<close>, empty when \<open>K \<le> 0\<close>.
  \<open>dist.all_reduce\<close> with \<open>ReduceOp.AVG\<close> leaves on every worker the mean of the
  values the workers contributed.
\<close>

definition mean :: "real list \<Rightarrow> real" where
  "mean xs = sum_list xs / real (length xs)"

definition all_reduce_avg :: "real \<Rightarrow> real list \<Rightarrow> real" where
  "all_reduce_avg own peers = mean (own # peers)"

text \<open>
  One pass of the loop body at micro step \<open>m\<close> of iteration \<open>it\<close>, on the batch
  \<open>b\<close> that the enclosing \<open>for\<close> over the loader bound: the body fetches nothing.
  \<open>K\<close> is \<open>gradient_accumulation_steps\<close> as the run context left it.
\<close>

definition micro_step ::
  "run_context \<Rightarrow> config \<Rightarrow> ('a, 'b) collaborators \<Rightarrow> int \<Rightarrow> 'b \<Rightarrow> int
     \<Rightarrow> ('a, 'b) event list" where
  "micro_step x c col it b m =
     (let K = gradient_accumulation_steps c;
          orig_loss = model_loss col it m b;
          loss = orig_loss / real_of_int K;
          avg_loss = all_reduce_avg orig_loss (peer_losses col it m)
      in (if ddp x then [SetGradSync (m = K - 1)] else [])
         @ [Forward b]
         @ (if ddp x then [AllReduceAvg orig_loss avg_loss] else [])
         @ (if wandb_log c \<and> master_process x
            then [WandbTrainLoss it (if ddp x then avg_loss else orig_loss)] else [])
         @ [ScaledBackward loss])"

text \<open>
  The whole loop, the clipping and the optimizer step. The second component is the
  variable \<open>loss\<close> afterwards: the value of the last pass, or what it was before when
  the loop body never ran (\<open>None\<close> when it was never bound).
\<close>

definition accumulate_and_step ::
  "run_context \<Rightarrow> config \<Rightarrow> ('a, 'b) collaborators \<Rightarrow> int \<Rightarrow> 'b \<Rightarrow> real option
     \<Rightarrow> ('a, 'b) event list \<times> real option" where
  "accumulate_and_step x c col it b loss_var =
     (let K = gradient_accumulation_steps c
      in (concat (map (micro_step x c col it b) [0..K - 1])
          @ (if grad_clip c \<noteq> 0 then [Unscale, ClipGradNorm] else [])
          @ [ScalerStep, ScalerUpdate, ZeroGrad],
          if 1 \<le> K then Some (model_loss col it (K - 1) b / real_of_int K) else loss_var))"

subsection \<open>Logging (lines 417--429)\<close>

text \<open>
  The loss line is printed by the coordinator from the variable \<open>loss\<close>; the sample
  line is written by every worker from \<open>decoded_prediction\<close>, bound by the same loop
  body. Times are not part of the embedding.
\<close>

definition log_and_sample ::
  "run_context \<Rightarrow> config \<Rightarrow> int \<Rightarrow> real \<Rightarrow> real option
     \<Rightarrow> error + ('a, 'b) event list" where
  "log_and_sample x c it lr loss_var =
     (if log_interval c = 0 then Inl ZeroDivisionError
      else
        (case (if it mod log_interval c = 0 \<and> master_process x
               then (case loss_var of
                       None \<Rightarrow> Inl (NameError ''loss'')
                     | Some l \<Rightarrow>
                         Inr [PrintLoss it (l * real_of_int (gradient_accumulation_steps c)) lr])
               else Inr []) of
           Inl e \<Rightarrow> Inl e
         | Inr ev1 \<Rightarrow>
             if sample_interval c = 0 then Inl ZeroDivisionError
             else if it mod sample_interval c = 0 then
               (case loss_var of
                  None \<Rightarrow> Inl (NameError ''decoded_prediction'')
                | Some l \<Rightarrow> Inr (ev1 @ [LogSample it]))
             else Inr ev1))"

subsection \<open>One iteration, one epoch, the run (lines 288--441)\<close>

record loop_state =
  ts :: training_state
  loss_var :: "real option"

datatype control = Continue | Break

text \<open>
  The body of the \<open>for\<close> over the loader, for the batch \<open>b\<close> in epoch \<open>epoch\<close>.
  An exception ends the run; the events before it are not kept.
\<close>

definition iteration ::
  "run_context \<Rightarrow> config \<Rightarrow> ('a, 'b) collaborators \<Rightarrow> int \<Rightarrow> 'b \<Rightarrow> loop_state
     \<Rightarrow> error + (control \<times> loop_state \<times> ('a, 'b) event list)" where
  "iteration x c col epoch b s =
     (let it = iter_num (ts s)
      in case lr_for c it of
           Inl e \<Rightarrow> Inl e
         | Inr lr \<Rightarrow>
           (case eval_and_checkpoint x c (evaluate col epoch it) (payloads_at col it) lr (ts s) of
              Inl e \<Rightarrow> Inl e
            | Inr (st, ev1) \<Rightarrow>
                if it = 0 \<and> eval_only c then Inr (Break, s\<lparr>ts := st\<rparr>, SetLr lr # ev1)
                else
                  (let (ev2, l) = accumulate_and_step x c col it b (loss_var s)
                   in case log_and_sample x c it lr l of
                        Inl e \<Rightarrow> Inl e
                      | Inr ev3 \<Rightarrow>
                          Inr (Continue,
                               \<lparr>ts = st\<lparr>iter_num := it + 1\<rparr>, loss_var = l\<rparr>,
                               SetLr lr # ev1 @ ev2 @ ev3))))"

fun run_batches ::
  "run_context \<Rightarrow> config \<Rightarrow> ('a, 'b) collaborators \<Rightarrow> int \<Rightarrow> 'b list \<Rightarrow> loop_state
     \<Rightarrow> error + (loop_state \<times> ('a, 'b) event list)" where
  "run_batches x c col epoch [] s = Inr (s, [])"
| "run_batches x c col epoch (b # bs) s =
     (case iteration x c col epoch b s of
        Inl e \<Rightarrow> Inl e
      | Inr (Break, s', ev) \<Rightarrow> Inr (s', ev)
      | Inr (Continue, s', ev) \<Rightarrow>
          (case run_batches x c col epoch bs s' of
             Inl e \<Rightarrow> Inl e
           | Inr (s'', ev') \<Rightarrow> Inr (s'', ev @ ev')))"

text \<open>Lines 433--439: the barrier and the check of \<open>max_iters\<close>, in a distributed run only.\<close>

definition epoch_boundary ::
  "run_context \<Rightarrow> config \<Rightarrow> loop_state \<Rightarrow> bool \<times> ('a, 'b) event list" where
  "epoch_boundary x c s =
     (if ddp x then
        (if iter_num (ts s) > max_iters c
         then (True, [Barrier, MaxItersCheck (iter_num (ts s)), LogStop])
         else (False, [Barrier, MaxItersCheck (iter_num (ts s))]))
      else (False, []))"

definition run_epoch ::
  "run_context \<Rightarrow> config \<Rightarrow> ('a, 'b) collaborators \<Rightarrow> int \<Rightarrow> loop_state
     \<Rightarrow> error + (bool \<times> loop_state \<times> ('a, 'b) event list)" where
  "run_epoch x c col epoch s =
     (case run_batches x c col epoch (train_loader col epoch) s of
        Inl e \<Rightarrow> Inl e
      | Inr (s', ev) \<Rightarrow>
          (let (stop, ev') = epoch_boundary x c s'
           in Inr (stop, s',
                   (if ddp x then [SetEpoch epoch] else [])
                   @ (if master_process x then [LogEpochStart epoch] else [])
                   @ ev @ ev')))"

fun run_epochs ::
  "run_context \<Rightarrow> config \<Rightarrow> ('a, 'b) collaborators \<Rightarrow> int list \<Rightarrow> loop_state
     \<Rightarrow> error + (loop_state \<times> ('a, 'b) event list)" where
  "run_epochs x c col [] s = Inr (s, [])"
| "run_epochs x c col (e # es) s =
     (case run_epoch x c col e s of
        Inl err \<Rightarrow> Inl err
      | Inr (stop, s', ev) \<Rightarrow>
          if stop then Inr (s', ev)
          else (case run_epochs x c col es s' of
                  Inl err \<Rightarrow> Inl err
                | Inr (s'', ev') \<Rightarrow> Inr (s'', ev @ ev')))"

text \<open>\<open>for epoch in range(num_epochs)\<close>.\<close>

definition training_loop ::
  "run_context \<Rightarrow> config \<Rightarrow> ('a, 'b) collaborators \<Rightarrow> loop_state
     \<Rightarrow> error + (loop_state \<times> ('a, 'b) event list)" where
  "training_loop x c col s = run_epochs x c col [0..num_epochs c - 1] s"

subsection \<open>Auxiliary definitions for the statements\<close>

text \<open>The expression bound to \<open>decay_ratio\<close> at line 271.\<close>

definition decay_ratio_at :: "config \<Rightarrow> int \<Rightarrow> real" where
  "decay_ratio_at c it =
     real_of_int (it - warmup_iters c) / real_of_int (lr_decay_iters c - warmup_iters c)"

text \<open>
  A small run to evaluate the definitions on: two batches per epoch, named 0 and 1, a loss
  of 1 on this worker and of 3 on the one other worker, a validation result of loss 1 and
  BLEU 1/2, payloads without content.
\<close>

definition example_collaborators :: "(unit, nat) collaborators" where
  "example_collaborators =
     \<lparr> train_loader = (\<lambda>epoch. [0, 1]),
       evaluate = (\<lambda>epoch it. (1, 1 / 2)),
       model_loss = (\<lambda>it m b. 1),
       peer_losses = (\<lambda>it m. [3]),
       payloads_at = (\<lambda>it. \<lparr> model_state_dict = (), optimizer_state_dict = (),
                                 model_args = (), config_dict = () \<rparr>) \<rparr>"

definition single_worker :: run_context where
  "single_worker = \<lparr> ddp = False, ddp_rank = 0, ddp_local_rank = 0, ddp_world_size = 1,
                     master_process = True, seed_offset = 0 \<rparr>"

definition coordinator_of_two :: run_context where
  "coordinator_of_two = \<lparr> ddp = True, ddp_rank = 0, ddp_local_rank = 0, ddp_world_size = 2,
                          master_process = True, seed_offset = 0 \<rparr>"

text \<open>
  The configurations on which no iteration raises: the three intervals are divisors
  (\<open>%\<close> by zero raises), the loop over the micro steps runs at least once (so that
  \<open>loss\<close> and \<open>decoded_prediction\<close> are bound when they are logged), and the
  divisions of \<open>get_lr\<close> are by non-zero numbers when the schedule is used.
\<close>

definition well_configured :: "config \<Rightarrow> bool" where
  "well_configured c =
     (eval_interval c \<noteq> 0 \<and> log_interval c \<noteq> 0 \<and> sample_interval c \<noteq> 0
      \<and> 1 \<le> gradient_accumulation_steps c
      \<and> (if decay_lr c then warmup_iters c \<noteq> 0 \<and> warmup_iters c \<noteq> lr_decay_iters c
         else True))"

text \<open>The defaults with one micro step, two epochs and a bound of one iteration.\<close>

definition small_config :: config where
  "small_config =
     default_config\<lparr>gradient_accumulation_steps := 1, num_epochs := 2, max_iters := 1\<rparr>"

section \<open>Checkpoint round trip\<close>

text \<open>
  C1. The claim: the checkpoint the script saves holds \<open>iter_num\<close>,
  \<open>best_val_loss\<close> and \<open>best_val_bleu\<close>, and resuming from it restores the three
  values. The dict literal of the save has no key \<open>'iter_num'\<close>, and the resume
  branch reads that key: for every training state and all payloads, on one worker or on
  many, resuming from the checkpoint just saved raises \<open>KeyError('iter_num')\<close>, and the saved dict has no such key.
\<close>

theorem resume_saved_checkpoint_KeyError:
  "resume x tc (Some (make_checkpoint p st)) = Inl (KeyError ''iter_num'')
   \<and> map_of (make_checkpoint p st) ''iter_num'' = None"
  by (simp add: resume_def make_checkpoint_def getitem_def)

section \<open>Startup: the divisibility assertion\<close>

text \<open>
  C8, as stated: in a distributed run startup aborts exactly when the world size is not
  divisible by the gradient accumulation step count. The assertion of line 116 divides the
  other way round. With 4 workers and 8 accumulation steps, 4 is not divisible by 8 and
  startup proceeds, leaving 2 steps per worker; with 8 workers and 4 steps, 8 is divisible by
  4 and startup aborts with AssertionError.
\<close>

theorem init_run_context_world_size_counterexample:
  "init_run_context \<lparr> RANK = Some 0, LOCAL_RANK = Some 0, WORLD_SIZE = Some 4 \<rparr> 8
     = Inr (\<lparr> ddp = True, ddp_rank = 0, ddp_local_rank = 0, ddp_world_size = 4,
               master_process = True, seed_offset = 0 \<rparr>, 2)
   \<and> (4::int) mod 8 \<noteq> 0
   \<and> init_run_context \<lparr> RANK = Some 0, LOCAL_RANK = Some 0, WORLD_SIZE = Some 8 \<rparr> 4
     = Inl AssertionError
   \<and> (8::int) mod 4 = 0"
  by (simp add: init_run_context_def is_ddp_def)

text \<open>
  C8, amended: in a distributed run (RANK set and not \<open>-1\<close>, LOCAL\_RANK and WORLD\_SIZE
  set, world size not zero) startup raises exactly when the gradient accumulation step
  count is not divisible by the world size; when it is divisible, startup returns the run
  context and the step count divided by the world size. The assertion is the one check in
  the startup code, which runs once.
\<close>

theorem init_run_context_divisibility:
  assumes "RANK env = Some r" and "r \<noteq> - 1" and "LOCAL_RANK env = Some l"
    and "WORLD_SIZE env = Some w" and "w \<noteq> 0"
  shows "(isl (init_run_context env gas) \<longleftrightarrow> gas mod w \<noteq> 0)
       \<and> (gas mod w = 0 \<longrightarrow>
            init_run_context env gas =
              Inr (\<lparr> ddp = True, ddp_rank = r, ddp_local_rank = l, ddp_world_size = w,
                     master_process = (r = 0), seed_offset = r \<rparr>, gas div w))"
  using assms by (simp add: init_run_context_def is_ddp_def)

theorem init_run_context_divisibility_witness:
  "RANK \<lparr> RANK = Some 1, LOCAL_RANK = Some 1, WORLD_SIZE = Some 4 \<rparr> = Some 1
   \<and> (1::int) \<noteq> - 1
   \<and> LOCAL_RANK \<lparr> RANK = Some 1, LOCAL_RANK = Some 1, WORLD_SIZE = Some 4 \<rparr> = Some 1
   \<and> WORLD_SIZE \<lparr> RANK = Some 1, LOCAL_RANK = Some 1, WORLD_SIZE = Some 4 \<rparr> = Some 4
   \<and> (4::int) \<noteq> 0
   \<and> \<not> isl (init_run_context \<lparr> RANK = Some 1, LOCAL_RANK = Some 1, WORLD_SIZE = Some 4 \<rparr> 8)
   \<and> init_run_context \<lparr> RANK = Some 1, LOCAL_RANK = Some 1, WORLD_SIZE = Some 4 \<rparr> 8
       = Inr (\<lparr> ddp = True, ddp_rank = 1, ddp_local_rank = 1, ddp_world_size = 4,
                 master_process = False, seed_offset = 1 \<rparr>, 2)"
  using init_run_context_divisibility
          [of "\<lparr> RANK = Some 1, LOCAL_RANK = Some 1, WORLD_SIZE = Some 4 \<rparr>" 1 1 4 8]
  by simp

section \<open>Projections of a run\<close>

lemma saved_checkpoints_append:
  "saved_checkpoints (xs @ ys) = saved_checkpoints xs @ saved_checkpoints ys"
  by (induction xs rule: saved_checkpoints.induct) simp_all

lemma evaluations_append:
  "evaluations (xs @ ys) = evaluations xs @ evaluations ys"
  by (induction xs rule: evaluations.induct) simp_all

lemma forward_batches_append:
  "forward_batches (xs @ ys) = forward_batches xs @ forward_batches ys"
  by (induction xs rule: forward_batches.induct) simp_all

lemma backward_losses_append:
  "backward_losses (xs @ ys) = backward_losses xs @ backward_losses ys"
  by (induction xs rule: backward_losses.induct) simp_all

lemma grad_sync_flags_append:
  "grad_sync_flags (xs @ ys) = grad_sync_flags xs @ grad_sync_flags ys"
  by (induction xs rule: grad_sync_flags.induct) simp_all

lemma optimizer_steps_append:
  "optimizer_steps (xs @ ys) = optimizer_steps xs + optimizer_steps ys"
  by (induction xs rule: optimizer_steps.induct) simp_all

lemma wandb_train_losses_append:
  "wandb_train_losses (xs @ ys) = wandb_train_losses xs @ wandb_train_losses ys"
  by (induction xs rule: wandb_train_losses.induct) simp_all

lemma printed_losses_append:
  "printed_losses (xs @ ys) = printed_losses xs @ printed_losses ys"
  by (induction xs rule: printed_losses.induct) simp_all

lemma epoch_starts_append: "epoch_starts (xs @ ys) = epoch_starts xs @ epoch_starts ys"
  by (induction xs rule: epoch_starts.induct) simp_all

lemma max_iters_checks_append:
  "max_iters_checks (xs @ ys) = max_iters_checks xs @ max_iters_checks ys"
  by (induction xs rule: max_iters_checks.induct) simp_all

lemma forward_batches_concat:
  "forward_batches (concat (map f ms)) = concat (map (\<lambda>m. forward_batches (f m)) ms)"
  by (induction ms) (simp_all add: forward_batches_append)

lemma backward_losses_concat:
  "backward_losses (concat (map f ms)) = concat (map (\<lambda>m. backward_losses (f m)) ms)"
  by (induction ms) (simp_all add: backward_losses_append)

lemma grad_sync_flags_concat:
  "grad_sync_flags (concat (map f ms)) = concat (map (\<lambda>m. grad_sync_flags (f m)) ms)"
  by (induction ms) (simp_all add: grad_sync_flags_append)

lemma optimizer_steps_concat:
  "optimizer_steps (concat (map f ms)) = sum_list (map (\<lambda>m. optimizer_steps (f m)) ms)"
  by (induction ms) (simp_all add: optimizer_steps_append)

lemma wandb_train_losses_concat:
  "wandb_train_losses (concat (map f ms)) = concat (map (\<lambda>m. wandb_train_losses (f m)) ms)"
  by (induction ms) (simp_all add: wandb_train_losses_append)

lemma printed_losses_concat:
  "(\<And>m. printed_losses (f m) = []) \<Longrightarrow> printed_losses (concat (map f ms)) = []"
  by (induction ms) (simp_all add: printed_losses_append)

lemma epoch_starts_concat:
  "(\<And>m. epoch_starts (f m) = []) \<Longrightarrow> epoch_starts (concat (map f ms)) = []"
  by (induction ms) (simp_all add: epoch_starts_append)

lemma max_iters_checks_concat:
  "(\<And>m. max_iters_checks (f m) = []) \<Longrightarrow> max_iters_checks (concat (map f ms)) = []"
  by (induction ms) (simp_all add: max_iters_checks_append)

lemma concat_map_singleton: "concat (map (\<lambda>m. [g m]) ms) = map g ms"
  by (induction ms) simp_all

lemma concat_map_Nil: "concat (map (\<lambda>m. []) ms) = []"
  by (induction ms) simp_all

lemma map_constant:
  "(\<And>m. m \<in> set ms \<Longrightarrow> f m = v) \<Longrightarrow> map f ms = replicate (length ms) v"
  by (induction ms) simp_all

section \<open>Best-metric tracking and checkpointing\<close>

lemma update_best_monotone:
  "best_val_loss (update_best l b st) \<le> best_val_loss st
   \<and> best_val_bleu st \<le> best_val_bleu (update_best l b st)
   \<and> iter_num (update_best l b st) = iter_num st"
  by (simp add: update_best_def)

lemma update_best_loss:
  "best_val_loss (update_best l b st) = (if l < best_val_loss st then l else best_val_loss st)"
  by (simp add: update_best_def)

lemma update_best_bleu:
  "best_val_bleu (update_best l b st)
     = (if \<not> l < best_val_loss st \<and> b > best_val_bleu st then b else best_val_bleu st)"
  by (simp add: update_best_def)

text \<open>
  C2. The claim: when a validation result improves both metrics at once, both trackers are
  updated. The update is an \<open>if\<close>/\<open>elif\<close>: with a best loss of 2 and a best BLEU
  of 0.3, the result of loss 1.5 and BLEU 0.5 improves both, and the update sets the best
  loss to 1.5 and leaves the best BLEU at 0.3.
\<close>

theorem update_best_both_improve:
  "update_best (3 / 2) (1 / 2) \<lparr> iter_num = 600, best_val_loss = 2, best_val_bleu = 3 / 10 \<rparr>
     = \<lparr> iter_num = 600, best_val_loss = 3 / 2, best_val_bleu = 3 / 10 \<rparr>
   \<and> (3 / 2 :: real) < 2 \<and> (1 / 2 :: real) > 3 / 10"
  by (simp add: update_best_def)

text \<open>
  C3. For an evaluation interval that is not zero the block returns, and a checkpoint is
  saved exactly when \<open>iter_num % eval_interval == 0\<close>, the worker is the coordinator,
  \<open>iter_num > 0\<close>, and the validation result is below the best loss or above the best
  BLEU or \<open>always_save_checkpoint\<close> is set; the checkpoint saved is the one made from
  the updated state. The evaluation runs exactly when the iteration is a multiple of the
  interval on the coordinator, so on no other worker. At \<open>iter_num = 0\<close> nothing is saved.
\<close>

theorem eval_and_checkpoint_saves_iff:
  assumes "eval_interval c \<noteq> 0"
  shows "\<exists>st' ev. eval_and_checkpoint x c vr p lr st = Inr (st', ev)
     \<and> saved_checkpoints ev =
         (if iter_num st mod eval_interval c = 0 \<and> master_process x \<and> iter_num st > 0
             \<and> (fst vr < best_val_loss st \<or> snd vr > best_val_bleu st
                  \<or> always_save_checkpoint c)
          then [make_checkpoint p st'] else [])
     \<and> evaluations ev =
         (if iter_num st mod eval_interval c = 0 \<and> master_process x then [iter_num st] else [])
     \<and> (iter_num st = 0 \<longrightarrow> saved_checkpoints ev = [])"
  using assms
  by (auto simp add: eval_and_checkpoint_def Let_def improved_def update_best_monotone
        saved_checkpoints_append evaluations_append)

text \<open>
  C3 on the default configuration: at iteration 600 a result that improves the loss is
  evaluated and saved, at iteration 0 the same result is evaluated and not saved.
\<close>

theorem eval_and_checkpoint_saves_iff_witness:
  "eval_interval default_config \<noteq> 0
   \<and> (\<exists>st' ev. eval_and_checkpoint single_worker default_config (1, 1 / 2)
          (payloads_at example_collaborators 600) (1 / 1000)
          \<lparr> iter_num = 600, best_val_loss = 2, best_val_bleu = 3 / 10 \<rparr>
        = Inr (st', ev :: (unit, nat) event list)
      \<and> saved_checkpoints ev = [make_checkpoint (payloads_at example_collaborators 600) st']
      \<and> evaluations ev = [600])
   \<and> iter_num initial_state = 0
   \<and> (\<exists>st' ev. eval_and_checkpoint single_worker default_config (1, 1 / 2)
          (payloads_at example_collaborators 0) 0 initial_state
        = Inr (st', ev :: (unit, nat) event list)
      \<and> saved_checkpoints ev = []
      \<and> evaluations ev = [0])"
  using eval_and_checkpoint_saves_iff
    [where ?'b = nat and c = default_config and x = single_worker and vr = "(1, 1 / 2)"
       and p = "payloads_at example_collaborators 600" and lr = "1 / 1000"
       and st = "\<lparr> iter_num = 600, best_val_loss = 2, best_val_bleu = 3 / 10 \<rparr>"]
    eval_and_checkpoint_saves_iff
    [where ?'b = nat and c = default_config and x = single_worker and vr = "(1, 1 / 2)"
       and p = "payloads_at example_collaborators 0" and lr = 0
       and st = initial_state]
  by (simp add: default_config_def single_worker_def initial_state_def) blast

text \<open>
  C10. The claim: the evaluation at iteration 0 updates the trackers without saving, so that
  the first checkpoint is written only for a later result that beats the result of
  iteration 0 on some metric (or with \<open>always_save_checkpoint\<close>). On the default
  configuration, the result of loss 1 and BLEU 0.5 at iteration 0 sets the best loss to 1
  and, by the \<open>elif\<close>, leaves the best BLEU at 0; at iteration 600 the result of loss 2
  and BLEU 0.1 is worse on both metrics and a checkpoint is saved.
\<close>

theorem eval_and_checkpoint_first_save:
  "(eval_and_checkpoint single_worker default_config (1, 1 / 2)
       (payloads_at example_collaborators 0) 0 initial_state
     :: error + (training_state \<times> (unit, nat) event list))
     = Inr (\<lparr> iter_num = 0, best_val_loss = 1, best_val_bleu = 0 \<rparr>,
            [Evaluate 0, PrintVal 0 1 (1 / 2), WandbVal 0 1 0 (1 / 2)])
   \<and> (eval_and_checkpoint single_worker default_config (2, 1 / 10)
       (payloads_at example_collaborators 600) (1 / 1000)
       \<lparr> iter_num = 600, best_val_loss = 1, best_val_bleu = 0 \<rparr>
     :: error + (training_state \<times> (unit, nat) event list))
     = Inr (\<lparr> iter_num = 600, best_val_loss = 1, best_val_bleu = 1 / 10 \<rparr>,
            [Evaluate 600, PrintVal 600 2 (1 / 10), WandbVal 600 2 (1 / 1000) (1 / 10),
             SaveCheckpoint (make_checkpoint (payloads_at example_collaborators 600)
               \<lparr> iter_num = 600, best_val_loss = 1, best_val_bleu = 1 / 10 \<rparr>)])
   \<and> \<not> ((2::real) < 1) \<and> \<not> ((1 / 10 :: real) > 1 / 2)
   \<and> \<not> always_save_checkpoint default_config"
  by (simp add: eval_and_checkpoint_def Let_def improved_def update_best_def
        single_worker_def default_config_def initial_state_def)

section \<open>Gradient accumulation\<close>

lemma micro_step_forward: "forward_batches (micro_step x c col it b m) = [b]"
  by (simp add: micro_step_def Let_def forward_batches_append)

lemma micro_step_backward:
  "backward_losses (micro_step x c col it b m)
     = [model_loss col it m b / real_of_int (gradient_accumulation_steps c)]"
  by (simp add: micro_step_def Let_def backward_losses_append)

lemma micro_step_sync:
  "grad_sync_flags (micro_step x c col it b m)
     = (if ddp x then [m = gradient_accumulation_steps c - 1] else [])"
  by (simp add: micro_step_def Let_def grad_sync_flags_append)

lemma micro_step_optimizer: "optimizer_steps (micro_step x c col it b m) = 0"
  by (simp add: micro_step_def Let_def optimizer_steps_append)

lemma micro_step_wandb:
  "wandb_train_losses (micro_step x c col it b m)
     = (if wandb_log c \<and> master_process x
        then [if ddp x then all_reduce_avg (model_loss col it m b) (peer_losses col it m)
              else model_loss col it m b]
        else [])"
  by (simp add: micro_step_def Let_def wandb_train_losses_append)

lemma micro_step_printed: "printed_losses (micro_step x c col it b m) = []"
  by (simp add: micro_step_def Let_def printed_losses_append)

lemma micro_step_quiet:
  "epoch_starts (micro_step x c col it b m) = []"
  "max_iters_checks (micro_step x c col it b m) = []"
  by (simp_all add: micro_step_def Let_def epoch_starts_append max_iters_checks_append)

lemma accumulate_forward:
  "forward_batches (fst (accumulate_and_step x c col it b l))
     = replicate (nat (gradient_accumulation_steps c)) b"
  by (simp add: accumulate_and_step_def Let_def forward_batches_append forward_batches_concat
        micro_step_forward concat_map_singleton map_replicate_const)

lemma sync_only_last:
  assumes "1 \<le> K"
  shows "map (\<lambda>m. m = K - 1) [0..K - 1] = replicate (nat (K - 1)) False @ [True]"
proof -
  have split: "[0..K - 1] = [0..K - 1 - 1] @ [K - 1]"
    using assms by (simp add: upto_rec2)
  have "map (\<lambda>m. m = K - 1) [0..K - 1 - 1] = replicate (length [0..K - 1 - 1]) False"
    by (rule map_constant) simp
  then have "map (\<lambda>m. m = K - 1) [0..K - 1 - 1] = replicate (nat (K - 1)) False"
    by simp
  then show ?thesis by (subst split) simp
qed

lemma accumulate_wandb:
  "ddp x \<Longrightarrow> master_process x \<Longrightarrow> wandb_log c \<Longrightarrow>
   wandb_train_losses (fst (accumulate_and_step x c col it b l))
     = map (\<lambda>m. mean (model_loss col it m b # peer_losses col it m))
         [0..gradient_accumulation_steps c - 1]"
  by (simp add: accumulate_and_step_def Let_def wandb_train_losses_append
        wandb_train_losses_concat micro_step_wandb concat_map_singleton all_reduce_avg_def)

lemma accumulate_printed: "printed_losses (fst (accumulate_and_step x c col it b l)) = []"
  by (simp add: accumulate_and_step_def Let_def printed_losses_append printed_losses_concat
        micro_step_printed)

lemma accumulate_quiet:
  "epoch_starts (fst (accumulate_and_step x c col it b l)) = []"
  "max_iters_checks (fst (accumulate_and_step x c col it b l)) = []"
  by (simp_all add: accumulate_and_step_def Let_def epoch_starts_append max_iters_checks_append
        epoch_starts_concat max_iters_checks_concat micro_step_quiet)

lemma accumulate_loss_var:
  "1 \<le> gradient_accumulation_steps c \<Longrightarrow>
   snd (accumulate_and_step x c col it b l)
     = Some (model_loss col it (gradient_accumulation_steps c - 1) b
               / real_of_int (gradient_accumulation_steps c))"
  by (simp add: accumulate_and_step_def Let_def)

text \<open>
  C4. The claim: each of the \<open>K\<close> micro steps works on its own micro batch pulled from
  the data source. The loop over the micro steps fetches nothing: the forward passes of one
  iteration are \<open>K\<close> passes on the one batch \<open>b\<close> that the enclosing loop over the
  loader bound. With \<open>K = 2\<close> and a loader whose epoch holds the batches 0 and 1, the
  two forward passes of the first iteration are both on batch 0.
\<close>

theorem accumulate_and_step_reuses_batch:
  "forward_batches (fst (accumulate_and_step x c col it b l))
     = replicate (nat (gradient_accumulation_steps c)) b
   \<and> forward_batches (fst (accumulate_and_step single_worker
         (default_config\<lparr>gradient_accumulation_steps := 2\<rparr>) example_collaborators 0
         (hd (train_loader example_collaborators 0)) None))
     = [0, 0]"
  by (simp add: accumulate_forward example_collaborators_def default_config_def
        numeral_2_eq_2)

lemma sync_in_force_append:
  "sync_in_force f (xs @ ys) = sync_in_force f xs @ sync_in_force (sync_after f xs) ys"
  by (induction f xs rule: sync_in_force.induct) simp_all

lemma micro_step_sync_in_force:
  "sync_in_force f (micro_step x c col it b m)
     = [(if ddp x then Some (m = gradient_accumulation_steps c - 1) else f, ForwardPass b),
        (if ddp x then Some (m = gradient_accumulation_steps c - 1) else f,
         BackwardPass (model_loss col it m b / real_of_int (gradient_accumulation_steps c)))]"
  by (simp add: micro_step_def Let_def sync_in_force_append)

lemma micro_step_sync_after:
  "sync_after f (micro_step x c col it b m)
     = (if ddp x then Some (m = gradient_accumulation_steps c - 1) else f)"
  by (simp add: micro_step_def Let_def)

lemma micro_steps_sync_in_force:
  "sync_in_force f (concat (map (micro_step x c col it b) ms))
     = concat (map (\<lambda>m.
         [(if ddp x then Some (m = gradient_accumulation_steps c - 1) else f, ForwardPass b),
          (if ddp x then Some (m = gradient_accumulation_steps c - 1) else f,
           BackwardPass (model_loss col it m b / real_of_int (gradient_accumulation_steps c)))])
         ms)"
proof (induction ms arbitrary: f)
  case Nil
  show ?case by simp
next
  case (Cons m ms)
  show ?case
    by (simp add: sync_in_force_append micro_step_sync_in_force micro_step_sync_after Cons.IH)
qed

lemma map_fst_concat_pairs:
  "map fst (concat (map (\<lambda>m. [(g m, p m), (g m, q m)]) ms))
     = concat (map (\<lambda>m. [g m, g m]) ms)"
  by (induction ms) simp_all

lemma twice_constant:
  "(\<And>m. m \<in> set ms \<Longrightarrow> g m = v)
     \<Longrightarrow> concat (map (\<lambda>m. [g m, g m]) ms) = replicate (2 * length ms) v"
  by (induction ms) simp_all

lemma sync_values_only_last:
  assumes "1 \<le> K"
  shows "concat (map (\<lambda>m. [Some (m = K - 1), Some (m = K - 1)]) [0..K - 1])
           = replicate (2 * nat (K - 1)) (Some False) @ [Some True, Some True]"
proof -
  have split: "[0..K - 1] = [0..K - 1 - 1] @ [K - 1]"
    using assms by (simp add: upto_rec2)
  have "concat (map (\<lambda>m. [Some (m = K - 1), Some (m = K - 1)]) [0..K - 1 - 1])
          = replicate (2 * length [0..K - 1 - 1]) (Some False)"
    by (rule twice_constant) simp
  then have "concat (map (\<lambda>m. [Some (m = K - 1), Some (m = K - 1)]) [0..K - 1 - 1])
          = replicate (2 * nat (K - 1)) (Some False)"
    by simp
  then show ?thesis by (subst split) simp
qed

text \<open>
  C5. For an accumulation count \<open>K \<ge> 1\<close> the events of one logical batch are the micro
  steps followed by the update. The micro steps are, for each \<open>m\<close> from 0 to
  \<open>K - 1\<close> in order, one forward pass and then one backward pass on the loss of that
  step times \<open>1/K\<close>. In a distributed run both passes of micro step \<open>m\<close> are made
  with \<open>require_backward_grad_sync\<close> set to \<open>m = K - 1\<close>, whatever it was
  before: the synchronisation is off for every pass of the earlier micro steps and on for the
  two passes of the last one. In a single-worker run the attribute is never assigned. No
  optimizer step happens among the micro steps; the update holds no forward or backward
  pass and exactly one optimizer step.
\<close>

theorem accumulate_and_step_schedule:
  assumes "1 \<le> gradient_accumulation_steps c"
  shows "\<exists>pre post. fst (accumulate_and_step x c col it b l) = pre @ post
     \<and> sync_in_force f pre =
         concat (map (\<lambda>m.
           [(if ddp x then Some (m = gradient_accumulation_steps c - 1) else f, ForwardPass b),
            (if ddp x then Some (m = gradient_accumulation_steps c - 1) else f,
             BackwardPass
               (model_loss col it m b * (1 / real_of_int (gradient_accumulation_steps c))))])
           [0..gradient_accumulation_steps c - 1])
     \<and> map fst (sync_in_force f pre) =
         (if ddp x
          then replicate (2 * nat (gradient_accumulation_steps c - 1)) (Some False)
                 @ [Some True, Some True]
          else replicate (2 * nat (gradient_accumulation_steps c)) f)
     \<and> length (forward_batches pre) = nat (gradient_accumulation_steps c)
     \<and> backward_losses pre =
         map (\<lambda>m. model_loss col it m b * (1 / real_of_int (gradient_accumulation_steps c)))
           [0..gradient_accumulation_steps c - 1]
     \<and> length (backward_losses pre) = nat (gradient_accumulation_steps c)
     \<and> grad_sync_flags pre =
         (if ddp x then replicate (nat (gradient_accumulation_steps c - 1)) False @ [True]
          else [])
     \<and> optimizer_steps pre = 0
     \<and> forward_batches post = [] \<and> backward_losses post = []
     \<and> optimizer_steps post = 1"
proof -
  let ?K = "gradient_accumulation_steps c"
  let ?pre = "concat (map (micro_step x c col it b) [0..?K - 1])"
  let ?post = "(if grad_clip c \<noteq> 0 then [Unscale, ClipGradNorm] else [])
                 @ [ScalerStep, ScalerUpdate, ZeroGrad] :: ('a, 'b) event list"
  let ?g = "\<lambda>m. if ddp x then Some (m = ?K - 1) else f"
  have a: "fst (accumulate_and_step x c col it b l) = ?pre @ ?post"
    by (simp add: accumulate_and_step_def Let_def)
  have s: "sync_in_force f ?pre =
      concat (map (\<lambda>m. [(?g m, ForwardPass b),
                          (?g m, BackwardPass (model_loss col it m b * (1 / real_of_int ?K)))])
        [0..?K - 1])"
    by (simp add: micro_steps_sync_in_force)
  have "map fst (sync_in_force f ?pre) = concat (map (\<lambda>m. [?g m, ?g m]) [0..?K - 1])"
    unfolding s by (rule map_fst_concat_pairs)
  also have "\<dots> = (if ddp x then replicate (2 * nat (?K - 1)) (Some False) @ [Some True, Some True]
                     else replicate (2 * nat ?K) f)"
  proof (cases "ddp x")
    case True
    then show ?thesis using sync_values_only_last [OF assms] by simp
  next
    case False
    have "concat (map (\<lambda>m. [f, f]) [0..?K - 1]) = replicate (2 * length [0..?K - 1]) f"
      by (rule twice_constant) simp
    with False show ?thesis by simp
  qed
  finally have s2: "map fst (sync_in_force f ?pre) =
      (if ddp x then replicate (2 * nat (?K - 1)) (Some False) @ [Some True, Some True]
       else replicate (2 * nat ?K) f)" .
  have fw: "length (forward_batches ?pre) = nat ?K"
    by (simp add: forward_batches_concat micro_step_forward concat_map_singleton)
  have bw: "backward_losses ?pre =
      map (\<lambda>m. model_loss col it m b * (1 / real_of_int ?K)) [0..?K - 1]"
    by (simp add: backward_losses_concat micro_step_backward concat_map_singleton)
  have bl: "length (backward_losses ?pre) = nat ?K"
    by (simp add: bw)
  have g: "grad_sync_flags ?pre =
      (if ddp x then replicate (nat (?K - 1)) False @ [True] else [])"
    using sync_only_last [OF assms]
    by (simp add: grad_sync_flags_concat micro_step_sync concat_map_singleton concat_map_Nil)
  have o: "optimizer_steps ?pre = 0"
    by (simp add: optimizer_steps_concat micro_step_optimizer)
  have p: "forward_batches ?post = []" "backward_losses ?post = []" "optimizer_steps ?post = 1"
    by simp_all
  from a s s2 fw bw bl g o p show ?thesis by blast
qed

text \<open>
  C5 on the coordinator of two workers with \<open>K = 2\<close>: a forward and a backward pass
  on half the loss with the synchronisation off, then a forward and a backward pass with it
  on, then one optimizer step.
\<close>

theorem accumulate_and_step_schedule_witness:
  "1 \<le> gradient_accumulation_steps (default_config\<lparr>gradient_accumulation_steps := 2\<rparr>)
   \<and> (\<exists>pre post.
         fst (accumulate_and_step coordinator_of_two
                (default_config\<lparr>gradient_accumulation_steps := 2\<rparr>)
                example_collaborators 0 0 None) = pre @ post
       \<and> sync_in_force None pre =
           [(Some False, ForwardPass 0), (Some False, BackwardPass (1 / 2)),
            (Some True, ForwardPass 0), (Some True, BackwardPass (1 / 2))]
       \<and> length (forward_batches pre) = 2
       \<and> backward_losses pre = [1 / 2, 1 / 2]
       \<and> grad_sync_flags pre = [False, True]
       \<and> optimizer_steps pre = 0
       \<and> optimizer_steps post = 1)"
  using accumulate_and_step_schedule
    [where c = "default_config\<lparr>gradient_accumulation_steps := 2\<rparr>"
       and x = coordinator_of_two and col = example_collaborators and it = 0 and b = 0
       and l = None and f = None]
  by (simp add: default_config_def coordinator_of_two_def example_collaborators_def upto_rec1)
     blast

section \<open>The losses that are logged\<close>

lemma lr_for_ok:
  assumes "well_configured c"
  shows "\<exists>r. lr_for c it = Inr r"
proof (cases "decay_lr c")
  case False
  then show ?thesis by (simp add: lr_for_def)
next
  case True
  with assms have w: "warmup_iters c \<noteq> 0" "warmup_iters c \<noteq> lr_decay_iters c"
    by (simp_all add: well_configured_def)
  consider "it < warmup_iters c" | "warmup_iters c \<le> it" "lr_decay_iters c < it"
    | "warmup_iters c \<le> it" "it \<le> lr_decay_iters c"
    by linarith
  then show ?thesis
  proof cases
    case 1
    with w True show ?thesis by (simp add: lr_for_def get_lr_def)
  next
    case 2
    with True show ?thesis by (simp add: lr_for_def get_lr_def)
  next
    case 3
    with w have lt: "warmup_iters c < lr_decay_iters c" by simp
    have "0 \<le> decay_ratio_at c it \<and> decay_ratio_at c it \<le> 1"
      using 3 lt by (simp add: decay_ratio_at_def)
    with 3 lt True show ?thesis
      by (simp add: lr_for_def get_lr_def Let_def decay_ratio_at_def)
  qed
qed

lemma eval_ok:
  assumes "eval_interval c \<noteq> 0"
  shows "\<exists>st ev. eval_and_checkpoint x c vr p lr s = Inr (st, ev)"
  using assms by (simp add: eval_and_checkpoint_def Let_def)

lemma eval_silent:
  assumes "eval_and_checkpoint x c vr p lr st = Inr (st', ev)"
  shows "wandb_train_losses ev = [] \<and> printed_losses ev = []"
  using assms
  by (auto simp add: eval_and_checkpoint_def Let_def wandb_train_losses_append
        printed_losses_append split: if_splits)

lemma log_ok:
  assumes "log_interval c \<noteq> 0" "sample_interval c \<noteq> 0"
  shows "\<exists>ev. log_and_sample x c it lr (Some v) = Inr ev"
  using assms by (simp add: log_and_sample_def)

lemma log_silent:
  assumes "log_and_sample x c it lr l = Inr ev"
  shows "wandb_train_losses ev = []"
  using assms
  by (auto simp add: log_and_sample_def wandb_train_losses_append
        split: if_splits option.splits sum.splits)

lemma log_printed:
  assumes "log_interval c \<noteq> 0" "sample_interval c \<noteq> 0" "1 \<le> gradient_accumulation_steps c"
  shows "\<exists>ev. log_and_sample x c it lr (Some (v / real_of_int (gradient_accumulation_steps c)))
           = Inr ev
     \<and> printed_losses ev = (if it mod log_interval c = 0 \<and> master_process x then [v] else [])"
  using assms by (auto simp add: log_and_sample_def printed_losses_append)

text \<open>
  C7, as stated: in a distributed run both the loss sent to the telemetry sink and the loss
  on the console line are the mean of the loss over the workers. On the coordinator of two
  workers with one micro step, a local loss of 1 and a loss of 3 on the other worker, the
  mean is 2; the telemetry sink receives 2 and the console line shows 1.
\<close>

theorem iteration_console_loss_counterexample:
  "iteration coordinator_of_two (default_config\<lparr>gradient_accumulation_steps := 1\<rparr>)
     example_collaborators 0 0 \<lparr> ts = initial_state, loss_var = None \<rparr>
   = Inr (Continue,
          \<lparr> ts = \<lparr> iter_num = 1, best_val_loss = 1, best_val_bleu = 0 \<rparr>, loss_var = Some 1 \<rparr>,
          [SetLr 0, Evaluate 0, PrintVal 0 1 (1 / 2), WandbVal 0 1 0 (1 / 2),
           SetGradSync True, Forward 0, AllReduceAvg 1 2, WandbTrainLoss 0 2, ScaledBackward 1,
           Unscale, ClipGradNorm, ScalerStep, ScalerUpdate, ZeroGrad,
           PrintLoss 0 1 0, LogSample 0])
   \<and> mean (model_loss example_collaborators 0 0 0 # peer_losses example_collaborators 0 0) = 2"
  by (simp add: iteration_def lr_for_def get_lr_def eval_and_checkpoint_def improved_def
        update_best_def accumulate_and_step_def micro_step_def log_and_sample_def Let_def
        all_reduce_avg_def mean_def coordinator_of_two_def default_config_def
        example_collaborators_def initial_state_def make_checkpoint_def)

text \<open>
  C7, amended: on the coordinator of a distributed run with telemetry on, an iteration that
  trains (on a configuration on which no iteration raises) sends to the telemetry sink, for
  each micro step, the mean over all workers of the loss of that micro step; the console
  line, printed when the iteration is a multiple of \<open>log_interval\<close>, shows the loss of
  the coordinator alone at the last micro step.
\<close>

theorem iteration_logged_losses:
  assumes "well_configured c" and "ddp x" and "master_process x" and "wandb_log c"
    and "\<not> (iter_num (ts s) = 0 \<and> eval_only c)"
  shows "\<exists>s' ev. iteration x c col e b s = Inr (Continue, s', ev)
     \<and> wandb_train_losses ev =
         map (\<lambda>m. mean (model_loss col (iter_num (ts s)) m b # peer_losses col (iter_num (ts s)) m))
           [0..gradient_accumulation_steps c - 1]
     \<and> printed_losses ev =
         (if iter_num (ts s) mod log_interval c = 0
          then [model_loss col (iter_num (ts s)) (gradient_accumulation_steps c - 1) b]
          else [])"
proof -
  let ?it = "iter_num (ts s)"
  let ?K = "gradient_accumulation_steps c"
  let ?v = "model_loss col ?it (?K - 1) b"
  from assms(1) have w: "eval_interval c \<noteq> 0" "log_interval c \<noteq> 0" "sample_interval c \<noteq> 0"
    "1 \<le> ?K"
    by (simp_all add: well_configured_def)
  obtain lr where lr: "lr_for c ?it = Inr lr"
    using lr_for_ok [OF assms(1)] by blast
  obtain st ev1 where ev1: "eval_and_checkpoint x c (evaluate col e ?it)
      (payloads_at col ?it) lr (ts s) = Inr (st, ev1 :: ('a, 'b) event list)"
    using eval_ok [OF w(1)] by blast
  note q1 = eval_silent [OF ev1]
  define ev2 :: "('a, 'b) event list"
    where "ev2 = fst (accumulate_and_step x c col ?it b (loss_var s))"
  have acc: "accumulate_and_step x c col ?it b (loss_var s) = (ev2, Some (?v / real_of_int ?K))"
    using accumulate_loss_var [OF w(4), of x col ?it b "loss_var s"]
    by (simp add: ev2_def prod_eq_iff)
  have q2: "wandb_train_losses ev2 =
      map (\<lambda>m. mean (model_loss col ?it m b # peer_losses col ?it m)) [0..?K - 1]"
    "printed_losses ev2 = []"
    unfolding ev2_def
    using assms by (simp_all add: accumulate_wandb accumulate_printed)
  from log_printed [OF w(2) w(3) w(4), of x ?it lr ?v]
  obtain ev3 :: "('a, 'b) event list" where
    ev3: "log_and_sample x c ?it lr (Some (?v / real_of_int ?K)) = Inr ev3"
    and p3: "printed_losses ev3 = (if ?it mod log_interval c = 0 \<and> master_process x then [?v] else [])"
    by auto
  note q3 = log_silent [OF ev3]
  have "iteration x c col e b s
      = Inr (Continue, \<lparr>ts = st\<lparr>iter_num := ?it + 1\<rparr>, loss_var = Some (?v / real_of_int ?K)\<rparr>,
             SetLr lr # ev1 @ ev2 @ ev3)"
    using lr ev1 acc ev3 assms(5) by (simp add: iteration_def Let_def)
  moreover have "wandb_train_losses (SetLr lr # ev1 @ ev2 @ ev3) =
      map (\<lambda>m. mean (model_loss col ?it m b # peer_losses col ?it m)) [0..?K - 1]"
    using q1 q2 q3 by (simp add: wandb_train_losses_append)
  moreover have "printed_losses (SetLr lr # ev1 @ ev2 @ ev3) =
      (if ?it mod log_interval c = 0 then [?v] else [])"
    using q1 q2 p3 assms(3) by (simp add: printed_losses_append)
  ultimately show ?thesis by blast
qed

text \<open>
  C7, amended, on the coordinator of two workers with two micro steps: the telemetry sink
  receives the mean of 1 and 3 twice, the console line shows 1.
\<close>

theorem iteration_logged_losses_witness:
  "well_configured (default_config\<lparr>gradient_accumulation_steps := 2\<rparr>)
   \<and> ddp coordinator_of_two \<and> master_process coordinator_of_two
   \<and> wandb_log (default_config\<lparr>gradient_accumulation_steps := 2\<rparr>)
   \<and> \<not> (iter_num (ts \<lparr> ts = initial_state, loss_var = None \<rparr>) = 0
          \<and> eval_only (default_config\<lparr>gradient_accumulation_steps := 2\<rparr>))
   \<and> (\<exists>s' ev. iteration coordinator_of_two (default_config\<lparr>gradient_accumulation_steps := 2\<rparr>)
          example_collaborators 0 0 \<lparr> ts = initial_state, loss_var = None \<rparr>
        = Inr (Continue, s', ev)
      \<and> wandb_train_losses ev = [mean [1, 3], mean [1, 3]]
      \<and> printed_losses ev = [1])"
proof -
  let ?c = "default_config\<lparr>gradient_accumulation_steps := 2\<rparr>"
  let ?s = "\<lparr> ts = initial_state, loss_var = None \<rparr>"
  have h: "well_configured ?c" "ddp coordinator_of_two" "master_process coordinator_of_two"
    "wandb_log ?c" "\<not> (iter_num (ts ?s) = 0 \<and> eval_only ?c)"
    by (simp_all add: well_configured_def default_config_def coordinator_of_two_def)
  from iteration_logged_losses [OF h, of example_collaborators 0 0]
  have "\<exists>s' ev. iteration coordinator_of_two ?c example_collaborators 0 0 ?s
        = Inr (Continue, s', ev)
      \<and> wandb_train_losses ev = [mean [1, 3], mean [1, 3]]
      \<and> printed_losses ev = [1]"
    by (simp add: default_config_def example_collaborators_def initial_state_def upto_rec1)
  with h show ?thesis by blast
qed

section \<open>The end of the run\<close>

subsection \<open>No iteration starts an epoch or checks the bound\<close>

lemma eval_quiet:
  assumes "eval_and_checkpoint x c vr p lr st = Inr (st', ev)"
  shows "epoch_starts ev = [] \<and> max_iters_checks ev = []"
  using assms
  by (auto simp add: eval_and_checkpoint_def Let_def epoch_starts_append
        max_iters_checks_append split: if_splits)

lemma log_quiet:
  assumes "log_and_sample x c it lr l = Inr ev"
  shows "epoch_starts ev = [] \<and> max_iters_checks ev = []"
  using assms
  by (auto simp add: log_and_sample_def epoch_starts_append max_iters_checks_append
        split: if_splits option.splits sum.splits)

lemma iteration_quiet:
  assumes "iteration x c col e b s = Inr (ctl, s', ev)"
  shows "epoch_starts ev = [] \<and> max_iters_checks ev = []"
proof -
  obtain lr where lr: "lr_for c (iter_num (ts s)) = Inr lr"
    using assms by (auto simp add: iteration_def Let_def split: sum.splits)
  obtain st ev1 where ev1: "eval_and_checkpoint x c (evaluate col e (iter_num (ts s)))
      (payloads_at col (iter_num (ts s))) lr (ts s) = Inr (st, ev1 :: ('a, 'b) event list)"
    using assms lr by (auto simp add: iteration_def Let_def split: sum.splits)
  note q1 = eval_quiet [OF ev1]
  show ?thesis
  proof (cases "iter_num (ts s) = 0 \<and> eval_only c")
    case True
    with assms lr ev1 q1 show ?thesis by (auto simp add: iteration_def Let_def)
  next
    case False
    obtain ev2 l where acc: "accumulate_and_step x c col (iter_num (ts s)) b (loss_var s)
        = (ev2 :: ('a, 'b) event list, l)"
      by (cases "accumulate_and_step x c col (iter_num (ts s)) b (loss_var s)")
    have q2: "epoch_starts ev2 = []" "max_iters_checks ev2 = []"
      using accumulate_quiet [of x c col "iter_num (ts s)" b "loss_var s"] acc by simp_all
    obtain ev3 where
      ev3: "log_and_sample x c (iter_num (ts s)) lr l = Inr (ev3 :: ('a, 'b) event list)"
      and ev: "ev = SetLr lr # ev1 @ ev2 @ ev3"
      using assms lr ev1 acc False by (auto simp add: iteration_def Let_def split: sum.splits)
    note q3 = log_quiet [OF ev3]
    show ?thesis using q1 q2 q3 ev
      by (simp add: epoch_starts_append max_iters_checks_append)
  qed
qed

lemma run_batches_quiet:
  "run_batches x c col e bs s = Inr (s', ev)
     \<Longrightarrow> epoch_starts ev = [] \<and> max_iters_checks ev = []"
proof (induction bs arbitrary: s s' ev)
  case Nil
  then show ?case by simp
next
  case (Cons b bs)
  from Cons.prems obtain ctl s1 ev1 where it: "iteration x c col e b s = Inr (ctl, s1, ev1)"
    by (auto split: sum.splits)
  note q = iteration_quiet [OF it]
  show ?case
  proof (cases ctl)
    case Break
    with Cons.prems it q show ?thesis by simp
  next
    case Continue
    with Cons.prems it obtain ev2 where r: "run_batches x c col e bs s1 = Inr (s', ev2)"
      and ev: "ev = ev1 @ ev2"
      by (auto split: sum.splits)
    from Cons.IH [OF r] q ev show ?thesis
      by (simp add: epoch_starts_append max_iters_checks_append)
  qed
qed

subsection \<open>A well-configured run returns\<close>

lemma iteration_ok:
  assumes "well_configured c"
  shows "\<exists>ctl s' ev. iteration x c col e b s = Inr (ctl, s', ev)"
proof -
  from assms have w: "eval_interval c \<noteq> 0" "log_interval c \<noteq> 0" "sample_interval c \<noteq> 0"
    "1 \<le> gradient_accumulation_steps c"
    by (simp_all add: well_configured_def)
  obtain lr where lr: "lr_for c (iter_num (ts s)) = Inr lr"
    using lr_for_ok [OF assms] by blast
  obtain st ev1 where ev1: "eval_and_checkpoint x c (evaluate col e (iter_num (ts s)))
      (payloads_at col (iter_num (ts s))) lr (ts s) = Inr (st, ev1 :: ('a, 'b) event list)"
    using eval_ok [OF w(1)] by blast
  obtain ev2 v where acc: "accumulate_and_step x c col (iter_num (ts s)) b (loss_var s)
      = (ev2 :: ('a, 'b) event list, Some v)"
    using w(4) by (simp add: accumulate_and_step_def Let_def)
  obtain ev3 where ev3:
    "log_and_sample x c (iter_num (ts s)) lr (Some v) = Inr (ev3 :: ('a, 'b) event list)"
    using log_ok [OF w(2,3)] by blast
  show ?thesis using lr ev1 acc ev3 by (simp add: iteration_def Let_def)
qed

lemma run_batches_ok:
  assumes "well_configured c"
  shows "\<exists>s' ev. run_batches x c col e bs s = Inr (s', ev)"
proof (induction bs arbitrary: s)
  case Nil
  show ?case by simp
next
  case (Cons b bs)
  from iteration_ok [OF assms, of x col e b s]
  obtain ctl s1 ev1 where it: "iteration x c col e b s = Inr (ctl, s1, ev1)"
    by auto
  from Cons.IH [of s1]
  obtain s2 ev2 where r: "run_batches x c col e bs s1 = Inr (s2, ev2)"
    by auto
  show ?case using it r by (cases ctl) simp_all
qed

lemma epoch_boundary_single_worker: "epoch_boundary single_worker c s = (False, [])"
  by (simp add: epoch_boundary_def single_worker_def)

lemma run_epoch_single_worker:
  assumes "well_configured c"
  shows "\<exists>s' ev. run_epoch single_worker c col e s = Inr (False, s', ev)
           \<and> epoch_starts ev = [e] \<and> max_iters_checks ev = []"
proof -
  from run_batches_ok [OF assms, of single_worker col e "train_loader col e" s]
  obtain s' ev where r: "run_batches single_worker c col e (train_loader col e) s = Inr (s', ev)"
    by auto
  note q = run_batches_quiet [OF r]
  have "run_epoch single_worker c col e s = Inr (False, s', LogEpochStart e # ev)"
    using r by (simp add: run_epoch_def epoch_boundary_def single_worker_def)
  with q show ?thesis by simp
qed

lemma run_epochs_single_worker:
  assumes "well_configured c"
  shows "\<exists>s' ev. run_epochs single_worker c col es s = Inr (s', ev)
           \<and> epoch_starts ev = es \<and> max_iters_checks ev = []"
proof (induction es arbitrary: s)
  case Nil
  show ?case by simp
next
  case (Cons e es)
  from run_epoch_single_worker [OF assms, of col e s]
  obtain s1 ev1 where e1: "run_epoch single_worker c col e s = Inr (False, s1, ev1)"
    and q1: "epoch_starts ev1 = [e]" "max_iters_checks ev1 = []"
    by auto
  from Cons.IH [of s1]
  obtain s2 ev2 where e2: "run_epochs single_worker c col es s1 = Inr (s2, ev2)"
    and q2: "epoch_starts ev2 = es" "max_iters_checks ev2 = []"
    by auto
  show ?case using e1 e2 q1 q2
    by (simp add: epoch_starts_append max_iters_checks_append)
qed

lemma run_epoch_single_worker_quiet:
  assumes "run_epoch single_worker c col e s = Inr (stop, s', ev)"
  shows "\<not> stop \<and> epoch_starts ev = [e] \<and> max_iters_checks ev = []"
proof -
  from assms obtain ev1 where
    r: "run_batches single_worker c col e (train_loader col e) s = Inr (s', ev1)"
    and ev: "ev = LogEpochStart e # ev1" and stop: "\<not> stop"
    unfolding run_epoch_def epoch_boundary_single_worker
    by (auto simp add: single_worker_def split: sum.splits)
  from run_batches_quiet [OF r] ev stop show ?thesis by simp
qed

lemma run_epochs_single_worker_quiet:
  "run_epochs single_worker c col es s = Inr (s', ev)
     \<Longrightarrow> epoch_starts ev = es \<and> max_iters_checks ev = []"
proof (induction es arbitrary: s s' ev)
  case Nil
  then show ?case by simp
next
  case (Cons e es)
  from Cons.prems obtain stop s1 ev1 where
    e1: "run_epoch single_worker c col e s = Inr (stop, s1, ev1)"
    by (auto split: sum.splits)
  note q1 = run_epoch_single_worker_quiet [OF e1]
  with Cons.prems e1 obtain ev2 where
    e2: "run_epochs single_worker c col es s1 = Inr (s', ev2)" and ev: "ev = ev1 @ ev2"
    by (auto split: sum.splits)
  from Cons.IH [OF e2] q1 ev show ?case
    by (simp add: epoch_starts_append max_iters_checks_append)
qed

subsection \<open>A single-worker run does not read the bound\<close>

lemma lr_for_max_iters: "lr_for (c\<lparr>max_iters := m\<rparr>) it = lr_for c it"
  by (simp add: lr_for_def get_lr_def)

lemma eval_max_iters:
  "eval_and_checkpoint x (c\<lparr>max_iters := m\<rparr>) vr p lr st = eval_and_checkpoint x c vr p lr st"
  by (simp add: eval_and_checkpoint_def improved_def)

lemma micro_step_max_iters:
  "micro_step x (c\<lparr>max_iters := m\<rparr>) col it b = micro_step x c col it b"
  by (rule ext) (simp add: micro_step_def)

lemma accumulate_max_iters:
  "accumulate_and_step x (c\<lparr>max_iters := m\<rparr>) col it b l = accumulate_and_step x c col it b l"
  by (simp add: accumulate_and_step_def micro_step_max_iters)

lemma log_max_iters:
  "log_and_sample x (c\<lparr>max_iters := m\<rparr>) it lr l = log_and_sample x c it lr l"
  by (simp add: log_and_sample_def split: option.splits sum.splits)

lemma iteration_max_iters:
  "iteration x (c\<lparr>max_iters := m\<rparr>) col e b s = iteration x c col e b s"
  unfolding iteration_def lr_for_max_iters eval_max_iters accumulate_max_iters
    log_max_iters
  by (simp add: Let_def split: sum.splits prod.splits)

lemma run_batches_max_iters:
  "run_batches x (c\<lparr>max_iters := m\<rparr>) col e bs s = run_batches x c col e bs s"
  by (induction bs arbitrary: s)
     (simp_all add: iteration_max_iters split: sum.splits control.splits)

lemma run_epoch_max_iters:
  "run_epoch single_worker (c\<lparr>max_iters := m\<rparr>) col e s = run_epoch single_worker c col e s"
  unfolding run_epoch_def run_batches_max_iters epoch_boundary_single_worker
  by simp

lemma run_epochs_max_iters:
  "run_epochs single_worker (c\<lparr>max_iters := m\<rparr>) col es s = run_epochs single_worker c col es s"
  by (induction es arbitrary: s) (simp_all add: run_epoch_max_iters split: sum.splits)

text \<open>Without RANK in the environment startup yields the single-worker context.\<close>

lemma init_run_context_single_worker:
  "\<not> is_ddp env \<Longrightarrow> init_run_context env K = Inr (single_worker, K)"
  by (simp add: init_run_context_def single_worker_def)

lemma small_run:
  "\<exists>ev. training_loop single_worker small_config example_collaborators
     \<lparr> ts = initial_state, loss_var = None \<rparr>
   = Inr (\<lparr> ts = \<lparr> iter_num = 4, best_val_loss = 1, best_val_bleu = 0 \<rparr>, loss_var = Some 1 \<rparr>, ev)"
  by (simp add: training_loop_def run_epoch_def epoch_boundary_def
        iteration_def lr_for_def get_lr_def eval_and_checkpoint_def improved_def
        update_best_def accumulate_and_step_def micro_step_def log_and_sample_def Let_def
        single_worker_def small_config_def default_config_def
        example_collaborators_def initial_state_def upto_rec1)

subsection \<open>A distributed run checks the bound at the end of each epoch\<close>

lemma run_epoch_ddp:
  assumes "ddp x" and "run_epoch x c col e s = Inr (stop, s', ev)"
  shows "stop = (max_iters c < iter_num (ts s'))
       \<and> (\<exists>ev0. ev = ev0 @ Barrier # MaxItersCheck (iter_num (ts s'))
                          # (if stop then [LogStop] else [])
               \<and> max_iters_checks ev0 = [])"
proof -
  from assms(2) obtain ev1 where
    r: "run_batches x c col e (train_loader col e) s = Inr (s', ev1)"
    and b: "epoch_boundary x c s' = (stop, drop (length ((if ddp x then [SetEpoch e] else [])
              @ (if master_process x then [LogEpochStart e] else []) @ ev1)) ev)"
    and ev: "ev = (if ddp x then [SetEpoch e] else [])
              @ (if master_process x then [LogEpochStart e] else []) @ ev1
              @ snd (epoch_boundary x c s')"
    by (auto simp add: run_epoch_def Let_def split: sum.splits prod.splits)
  note q = run_batches_quiet [OF r]
  let ?ev0 = "(if ddp x then [SetEpoch e] else [])
              @ (if master_process x then [LogEpochStart e] else []) @ ev1"
  have q0: "max_iters_checks ?ev0 = []"
    using q by (simp add: max_iters_checks_append)
  have st: "stop = (max_iters c < iter_num (ts s'))"
    using b assms(1) by (simp add: epoch_boundary_def split: if_splits)
  have "snd (epoch_boundary x c s') = Barrier # MaxItersCheck (iter_num (ts s'))
          # (if stop then [LogStop] else [])"
    using assms(1) st by (simp add: epoch_boundary_def)
  with ev have "ev = ?ev0 @ Barrier # MaxItersCheck (iter_num (ts s'))
          # (if stop then [LogStop] else [])"
    by simp
  with q0 st show ?thesis by blast
qed

lemma run_epoch_ddp_checks:
  assumes "ddp x" and "run_epoch x c col e s = Inr (stop, s', ev)"
  shows "max_iters_checks ev = [iter_num (ts s')]"
proof -
  from run_epoch_ddp [OF assms] obtain ev0 where
    "ev = ev0 @ Barrier # MaxItersCheck (iter_num (ts s')) # (if stop then [LogStop] else [])"
    and "max_iters_checks ev0 = []"
    by blast
  then show ?thesis by (simp add: max_iters_checks_append)
qed

lemma run_epochs_ddp:
  assumes "ddp x"
  shows "run_epochs x c col es s = Inr (s', ev) \<Longrightarrow>
         length (max_iters_checks ev) \<le> length es
       \<and> (\<forall>n \<in> set (butlast (max_iters_checks ev)). n \<le> max_iters c)
       \<and> (length (max_iters_checks ev) < length es \<longrightarrow>
            max_iters_checks ev \<noteq> [] \<and> max_iters c < last (max_iters_checks ev))
       \<and> (es \<noteq> [] \<longrightarrow>
            max_iters_checks ev \<noteq> [] \<and> last (max_iters_checks ev) = iter_num (ts s'))"
proof (induction es arbitrary: s s' ev)
  case Nil
  then show ?case by simp
next
  case (Cons e es)
  from Cons.prems obtain stop s1 ev1 where
    e1: "run_epoch x c col e s = Inr (stop, s1, ev1)"
    by (auto split: sum.splits)
  from run_epoch_ddp [OF assms e1] have st: "stop = (max_iters c < iter_num (ts s1))"
    by blast
  note c1 = run_epoch_ddp_checks [OF assms e1]
  show ?case
  proof (cases stop)
    case True
    with Cons.prems e1 have "s' = s1" "ev = ev1" by simp_all
    with c1 st True show ?thesis by simp
  next
    case False
    with Cons.prems e1 obtain ev2 where
      e2: "run_epochs x c col es s1 = Inr (s', ev2)" and ev: "ev = ev1 @ ev2"
      by (auto split: sum.splits)
    note ih = Cons.IH [OF e2]
    have cs: "max_iters_checks ev = iter_num (ts s1) # max_iters_checks ev2"
      using ev c1 by (simp add: max_iters_checks_append)
    have le: "iter_num (ts s1) \<le> max_iters c" using st False by simp
    show ?thesis
    proof (cases es)
      case Nil
      with e2 have "s' = s1" "ev2 = []" by simp_all
      with cs Nil show ?thesis by simp
    next
      case (Cons e' es')
      with ih have ne: "max_iters_checks ev2 \<noteq> []"
        and la: "last (max_iters_checks ev2) = iter_num (ts s')"
        by simp_all
      from ih have len: "length (max_iters_checks ev2) \<le> length es"
        and bl: "\<forall>n \<in> set (butlast (max_iters_checks ev2)). n \<le> max_iters c"
        and early: "length (max_iters_checks ev2) < length es \<longrightarrow>
            max_iters c < last (max_iters_checks ev2)"
        by simp_all
      show ?thesis using cs ne la len bl early le by simp
    qed
  qed
qed

lemma small_ddp_run:
  "\<exists>ev. training_loop coordinator_of_two small_config example_collaborators
     \<lparr> ts = initial_state, loss_var = None \<rparr>
   = Inr (\<lparr> ts = \<lparr> iter_num = 2, best_val_loss = 1, best_val_bleu = 0 \<rparr>, loss_var = Some 1 \<rparr>, ev)"
  by (simp add: training_loop_def run_epoch_def epoch_boundary_def
        iteration_def lr_for_def get_lr_def eval_and_checkpoint_def improved_def
        update_best_def accumulate_and_step_def micro_step_def log_and_sample_def Let_def
        coordinator_of_two_def small_config_def default_config_def
        example_collaborators_def initial_state_def upto_rec1)

text \<open>
  C9. In a single-worker run the bound \<open>max_iters\<close> is never checked: the result of the
  run, events included, is the same for every value of \<open>max_iters\<close>; a run that returns
  has started every epoch of \<open>range(num_epochs)\<close> in order and holds no check of the
  bound; and on a configuration on which no iteration raises the run does return. The check
  \<open>iter_num > max_iters\<close> is made at the end of an epoch, after the barrier, and only
  when the run is distributed; it stops the run exactly when it holds. In a distributed run
  every epoch that returns ends with the barrier and then the one check of the epoch, made
  on the \<open>iter_num\<close> the epoch leaves, and the loop over the epochs stops exactly when
  the check holds. A distributed run that returns has made at most one check per epoch of
  \<open>range(num_epochs)\<close>; every check but the last found \<open>iter_num\<close> within the
  bound; the run has made fewer checks than there are epochs only when the last check found
  \<open>iter_num\<close> beyond the bound.
\<close>

theorem training_loop_single_worker_ignores_max_iters:
  "(\<forall>m. training_loop single_worker (c\<lparr>max_iters := m\<rparr>) col s
          = training_loop single_worker c col s)
   \<and> (\<forall>s' ev. training_loop single_worker c col s = Inr (s', ev) \<longrightarrow>
         epoch_starts ev = [0..num_epochs c - 1] \<and> max_iters_checks ev = [])
   \<and> (well_configured c \<longrightarrow> (\<exists>s' ev. training_loop single_worker c col s = Inr (s', ev)))
   \<and> (\<forall>x s'. epoch_boundary x c s' =
         (if ddp x
          then (iter_num (ts s') > max_iters c,
                Barrier # MaxItersCheck (iter_num (ts s'))
                  # (if iter_num (ts s') > max_iters c then [LogStop] else []))
          else (False, [])))
   \<and> (\<forall>x e s0 stop s' ev. ddp x \<and> run_epoch x c col e s0 = Inr (stop, s', ev) \<longrightarrow>
         stop = (max_iters c < iter_num (ts s'))
         \<and> (\<exists>ev0. ev = ev0 @ Barrier # MaxItersCheck (iter_num (ts s'))
                            # (if stop then [LogStop] else [])
                 \<and> max_iters_checks ev0 = []))
   \<and> (\<forall>x s' ev. ddp x \<and> training_loop x c col s = Inr (s', ev) \<longrightarrow>
         length (max_iters_checks ev) \<le> nat (num_epochs c)
         \<and> (\<forall>n \<in> set (butlast (max_iters_checks ev)). n \<le> max_iters c)
         \<and> (length (max_iters_checks ev) < nat (num_epochs c) \<longrightarrow>
              max_iters_checks ev \<noteq> [] \<and> max_iters c < last (max_iters_checks ev))
         \<and> (0 < num_epochs c \<longrightarrow>
              max_iters_checks ev \<noteq> [] \<and> last (max_iters_checks ev) = iter_num (ts s')))"
proof (intro conjI)
  show "\<forall>m. training_loop single_worker (c\<lparr>max_iters := m\<rparr>) col s
          = training_loop single_worker c col s"
    by (simp add: training_loop_def run_epochs_max_iters)
next
  show "\<forall>s' ev. training_loop single_worker c col s = Inr (s', ev) \<longrightarrow>
         epoch_starts ev = [0..num_epochs c - 1] \<and> max_iters_checks ev = []"
    unfolding training_loop_def by (intro allI impI) (rule run_epochs_single_worker_quiet)
next
  show "well_configured c \<longrightarrow> (\<exists>s' ev. training_loop single_worker c col s = Inr (s', ev))"
  proof
    assume "well_configured c"
    from run_epochs_single_worker [OF this, of col "[0..num_epochs c - 1]" s]
    show "\<exists>s' ev. training_loop single_worker c col s = Inr (s', ev)"
      by (auto simp add: training_loop_def)
  qed
next
  show "\<forall>x e s0 stop s' ev. ddp x \<and> run_epoch x c col e s0 = Inr (stop, s', ev) \<longrightarrow>
         stop = (max_iters c < iter_num (ts s'))
         \<and> (\<exists>ev0. ev = ev0 @ Barrier # MaxItersCheck (iter_num (ts s'))
                            # (if stop then [LogStop] else [])
                 \<and> max_iters_checks ev0 = [])"
    using run_epoch_ddp by blast
next
  show "\<forall>x s' ev. ddp x \<and> training_loop x c col s = Inr (s', ev) \<longrightarrow>
         length (max_iters_checks ev) \<le> nat (num_epochs c)
         \<and> (\<forall>n \<in> set (butlast (max_iters_checks ev)). n \<le> max_iters c)
         \<and> (length (max_iters_checks ev) < nat (num_epochs c) \<longrightarrow>
              max_iters_checks ev \<noteq> [] \<and> max_iters c < last (max_iters_checks ev))
         \<and> (0 < num_epochs c \<longrightarrow>
              max_iters_checks ev \<noteq> [] \<and> last (max_iters_checks ev) = iter_num (ts s'))"
  proof (intro allI impI)
    fix x s' ev
    assume a: "ddp x \<and> training_loop x c col s = Inr (s', ev)"
    then have d: "ddp x" and r: "run_epochs x c col [0..num_epochs c - 1] s = Inr (s', ev)"
      by (simp_all add: training_loop_def)
    have len: "length [0..num_epochs c - 1] = nat (num_epochs c)" by simp
    have ne: "([0..num_epochs c - 1] \<noteq> []) = (0 < num_epochs c)" by auto
    from run_epochs_ddp [OF d r, unfolded len ne]
    show "length (max_iters_checks ev) \<le> nat (num_epochs c)
         \<and> (\<forall>n \<in> set (butlast (max_iters_checks ev)). n \<le> max_iters c)
         \<and> (length (max_iters_checks ev) < nat (num_epochs c) \<longrightarrow>
              max_iters_checks ev \<noteq> [] \<and> max_iters c < last (max_iters_checks ev))
         \<and> (0 < num_epochs c \<longrightarrow>
              max_iters_checks ev \<noteq> [] \<and> last (max_iters_checks ev) = iter_num (ts s'))"
      by blast
  qed
qed (simp add: epoch_boundary_def)

text \<open>
  C9 on a run of two epochs of two batches with \<open>max_iters = 1\<close>. On a single worker
  the run returns with \<open>iter_num = 4\<close>, past the bound, after starting epochs 0 and 1,
  and never checks the bound. On the coordinator of two workers the run returns with
  \<open>iter_num = 2\<close> after the first epoch, whose check found 2 beyond the bound.
\<close>

theorem training_loop_single_worker_ignores_max_iters_witness:
  "well_configured small_config
   \<and> max_iters small_config = 1
   \<and> (\<exists>ev. training_loop single_worker small_config example_collaborators
              \<lparr> ts = initial_state, loss_var = None \<rparr>
            = Inr (\<lparr> ts = \<lparr> iter_num = 4, best_val_loss = 1, best_val_bleu = 0 \<rparr>,
                     loss_var = Some 1 \<rparr>, ev)
          \<and> epoch_starts ev = [0, 1] \<and> max_iters_checks ev = [])
   \<and> ddp coordinator_of_two
   \<and> (\<exists>ev. training_loop coordinator_of_two small_config example_collaborators
              \<lparr> ts = initial_state, loss_var = None \<rparr>
            = Inr (\<lparr> ts = \<lparr> iter_num = 2, best_val_loss = 1, best_val_bleu = 0 \<rparr>,
                     loss_var = Some 1 \<rparr>, ev)
          \<and> max_iters_checks ev \<noteq> [] \<and> last (max_iters_checks ev) = 2
          \<and> length (max_iters_checks ev) \<le> 2)"
proof -
  let ?s = "\<lparr> ts = initial_state, loss_var = None \<rparr>"
  have h: "well_configured small_config" "max_iters small_config = 1"
    by (simp_all add: well_configured_def small_config_def default_config_def)
  have d: "ddp coordinator_of_two" by (simp add: coordinator_of_two_def)
  have n: "num_epochs small_config = 2" by (simp add: small_config_def default_config_def)
  note t = training_loop_single_worker_ignores_max_iters [of small_config example_collaborators ?s]
  from small_run obtain ev where
    r: "training_loop single_worker small_config example_collaborators ?s
        = Inr (\<lparr> ts = \<lparr> iter_num = 4, best_val_loss = 1, best_val_bleu = 0 \<rparr>,
                 loss_var = Some 1 \<rparr>, ev)"
    by blast
  from t r
  have "epoch_starts ev = [0..num_epochs small_config - 1] \<and> max_iters_checks ev = []"
    by blast
  then have r': "epoch_starts ev = [0, 1] \<and> max_iters_checks ev = []"
    by (simp add: n upto_rec1)
  from small_ddp_run obtain ev' where
    r2: "training_loop coordinator_of_two small_config example_collaborators ?s
        = Inr (\<lparr> ts = \<lparr> iter_num = 2, best_val_loss = 1, best_val_bleu = 0 \<rparr>,
                 loss_var = Some 1 \<rparr>, ev')"
    by blast
  from t d r2
  have "length (max_iters_checks ev') \<le> nat (num_epochs small_config)
      \<and> (0 < num_epochs small_config \<longrightarrow>
           max_iters_checks ev' \<noteq> []
           \<and> last (max_iters_checks ev')
               = iter_num (ts \<lparr> ts = \<lparr> iter_num = 2, best_val_loss = 1, best_val_bleu = 0 \<rparr>,
                                loss_var = Some 1 \<rparr>))"
    by blast
  then have r2': "max_iters_checks ev' \<noteq> [] \<and> last (max_iters_checks ev') = 2
      \<and> length (max_iters_checks ev') \<le> 2"
    by (simp add: n)
  from h d r r' r2 r2' show ?thesis by blast
qed

end
